theory Spec2Isabelle
  imports Complex_Main
begin

section \<open>The equilibration node of the BioSimSpace workshop\<close>

text \<open>
  The repository holds tutorial notebooks. The one piece of program text in it is the node
  script \<^verbatim>\<open>nodes/equilibration.ipynb\<close>: it declares its inputs and outputs, reads a
  molecular system, runs an equilibration and writes two outputs. Every call it makes into
  the \<^verbatim>\<open>BioSimSpace\<close> package leaves the repository; those calls are parameters of the
  model below, and a call that raises is the value \<open>None\<close>.
\<close>

subsection \<open>Python strings and \<^verbatim>\<open>str.upper\<close>\<close>

text \<open>
  A Python string is a sequence of Unicode code points. \<^verbatim>\<open>str.upper\<close> maps every code
  point on its own and concatenates the results (one code point can become several). Its
  table for the ASCII range is written out; the table for the code points from 128 on is a
  parameter \<open>uc\<close>.
\<close>

type_synonym str = "nat list"

definition str_of :: "string \<Rightarrow> str" where
  "str_of s = map of_char s"

definition upper_cp :: "(nat \<Rightarrow> str) \<Rightarrow> nat \<Rightarrow> str" where
  "upper_cp uc c = (if 97 \<le> c \<and> c \<le> 122 then [c - 32] else if c < 128 then [c] else uc c)"

definition upper :: "(nat \<Rightarrow> str) \<Rightarrow> str \<Rightarrow> str" where
  "upper uc s = concat (map (upper_cp uc) s)"

text \<open>
  Two code points are the same letter up to case when they are equal, or when they are the
  lower-case and the upper-case form of one ASCII letter. Two strings differ only in letter
  case when they agree position by position in that sense.
\<close>

definition is_ascii_upper :: "nat \<Rightarrow> bool" where
  "is_ascii_upper c = (65 \<le> c \<and> c \<le> 90)"

definition case_variant :: "nat \<Rightarrow> nat \<Rightarrow> bool" where
  "case_variant c d =
     (c = d \<or> (is_ascii_upper c \<and> d = c + 32) \<or> (is_ascii_upper d \<and> c = d + 32))"

definition differ_only_in_case :: "str \<Rightarrow> str \<Rightarrow> bool" where
  "differ_only_in_case s t = list_all2 case_variant s t"

definition is_ascii_lower :: "nat \<Rightarrow> bool" where
  "is_ascii_lower c = (97 \<le> c \<and> c \<le> 122)"

text \<open>
  The wider reading of "differ only in letter case", over all of Unicode: position by
  position, the code points are equal or one is the lower-case or the upper-case form of
  the other. \<^verbatim>\<open>str.lower\<close> is laid out like \<^verbatim>\<open>str.upper\<close>, with its table beyond ASCII a
  parameter \<open>lc\<close>. The script does not call it; it only says what a letter's other case is.
\<close>

definition lower_cp :: "(nat \<Rightarrow> str) \<Rightarrow> nat \<Rightarrow> str" where
  "lower_cp lc c = (if 65 \<le> c \<and> c \<le> 90 then [c + 32] else if c < 128 then [c] else lc c)"

definition letter_case_variant :: "(nat \<Rightarrow> str) \<Rightarrow> (nat \<Rightarrow> str) \<Rightarrow> nat \<Rightarrow> nat \<Rightarrow> bool" where
  "letter_case_variant uc lc c d =
     (c = d \<or> lower_cp lc c = [d] \<or> lower_cp lc d = [c] \<or>
      upper_cp uc c = [d] \<or> upper_cp uc d = [c])"

definition differ_only_in_letter_case :: "(nat \<Rightarrow> str) \<Rightarrow> (nat \<Rightarrow> str) \<Rightarrow> str \<Rightarrow> str \<Rightarrow> bool" where
  "differ_only_in_letter_case uc lc s t = list_all2 (letter_case_variant uc lc) s t"

subsection \<open>Units and quantities\<close>

text \<open>
  The script builds its quantities as \<^verbatim>\<open>0.2*BSS.Units.Time.nanosecond\<close>: a number times a
  unit object. The magnitude is the decimal the source writes, held as a rational.
\<close>

datatype unit_name = NANOSECOND | KELVIN

datatype quantity = Quantity (magnitude: rat) (unit: unit_name)

definition nanosecond :: quantity where
  "nanosecond = Quantity 1 NANOSECOND"

definition kelvin :: quantity where
  "kelvin = Quantity 1 KELVIN"

fun times_q :: "rat \<Rightarrow> quantity \<Rightarrow> quantity" where
  "times_q r (Quantity m u) = Quantity (r * m) u"

subsection \<open>Gateway requirements\<close>

text \<open>
  The values a node input or output can carry, and the requirement objects of
  \<^verbatim>\<open>BSS.Gateway\<close> with exactly the keyword arguments the script passes: \<open>help\<close> for all,
  \<open>unit\<close>, \<open>minimum\<close>, \<open>maximum\<close> and \<open>default\<close> for \<open>Time\<close> and \<open>Temperature\<close>, \<open>default\<close>
  for \<open>Boolean\<close>.
\<close>

datatype val =
    FilesV "string list"
  | QuantityV quantity
  | BoolV bool
  | StringV str
  | FileV string

datatype requirement =
    FileSet string
  | Time string string quantity quantity quantity
  | Temperature string string quantity quantity quantity
  | Boolean string bool
  | String string
  | File string

fun default_of :: "requirement \<Rightarrow> val option" where
  "default_of (Time h u lo hi d) = Some (QuantityV d)"
| "default_of (Temperature h u lo hi d) = Some (QuantityV d)"
| "default_of (Boolean h d) = Some (BoolV d)"
| "default_of _ = None"

text \<open>
  Modelled from the spec: the validation of \<^verbatim>\<open>BSS.Gateway\<close>, whose code is outside the
  repository. The spec calls a node's inputs and outputs "declared" and "validated": a value
  is accepted by a requirement when it has the requirement's type and, for a bounded
  quantity, the unit of the bounds and a magnitude from \<open>minimum\<close> to \<open>maximum\<close>, both
  included.
\<close>

fun in_bounds :: "quantity \<Rightarrow> quantity \<Rightarrow> quantity \<Rightarrow> bool" where
  "in_bounds lo hi q =
     (unit q = unit lo \<and> unit q = unit hi \<and>
      magnitude lo \<le> magnitude q \<and> magnitude q \<le> magnitude hi)"

fun accepts :: "requirement \<Rightarrow> val \<Rightarrow> bool" where
  "accepts (FileSet h) (FilesV fs) = True"
| "accepts (Time h u lo hi d) (QuantityV q) = in_bounds lo hi q"
| "accepts (Temperature h u lo hi d) (QuantityV q) = in_bounds lo hi q"
| "accepts (Boolean h d) (BoolV b) = True"
| "accepts (String h) (StringV s) = True"
| "accepts (File h) (FileV f) = True"
| "accepts _ _ = False"

text \<open>
  Modelled from the spec: how \<^verbatim>\<open>BSS.Gateway.Node\<close> settles one declared input from what the
  user supplied (a command-line flag or a notebook control). A supplied value must be
  accepted; an input left out takes its default, and an input with no default is required.
\<close>

fun resolve :: "requirement \<Rightarrow> val option \<Rightarrow> val option" where
  "resolve r (Some v) = (if accepts r v then Some v else None)"
| "resolve r None = default_of r"

subsection \<open>The node object\<close>

text \<open>
  Modelled from the spec: the node of \<^verbatim>\<open>BSS.Gateway.Node\<close> as the record of what the
  script declares on it, in the order of the declarations.
\<close>

record node =
  description :: string
  authors :: "(string \<times> string \<times> string) list"
  license :: string
  inputs :: "(string \<times> requirement) list"
  outputs :: "(string \<times> requirement) list"

definition Node :: "string \<Rightarrow> node" where
  "Node d = \<lparr>description = d, authors = [], license = [], inputs = [], outputs = []\<rparr>"

definition addAuthor :: "string \<Rightarrow> string \<Rightarrow> string \<Rightarrow> node \<Rightarrow> node" where
  "addAuthor name email affiliation n = n\<lparr>authors := authors n @ [(name, email, affiliation)]\<rparr>"

definition setLicense :: "string \<Rightarrow> node \<Rightarrow> node" where
  "setLicense l n = n\<lparr>license := l\<rparr>"

definition addInput :: "string \<Rightarrow> requirement \<Rightarrow> node \<Rightarrow> node" where
  "addInput name r n = n\<lparr>inputs := inputs n @ [(name, r)]\<rparr>"

definition addOutput :: "string \<Rightarrow> requirement \<Rightarrow> node \<Rightarrow> node" where
  "addOutput name r n = n\<lparr>outputs := outputs n @ [(name, r)]\<rparr>"

datatype error = Rejected string | Raised string

text \<open>
  Modelled from the spec: \<^verbatim>\<open>node.showControls()\<close> settles every declared input, in
  declaration order, and refuses the run at the first one that cannot be settled.
\<close>

fun resolve_all :: "(string \<times> requirement) list \<Rightarrow> (string \<rightharpoonup> val) \<Rightarrow> error + (string \<rightharpoonup> val)" where
  "resolve_all [] args = Inr Map.empty"
| "resolve_all ((name, r) # rest) args =
     (case resolve r (args name) of
        None \<Rightarrow> Inl (Rejected name)
      | Some v \<Rightarrow>
          (case resolve_all rest args of
             Inl e \<Rightarrow> Inl e
           | Inr m \<Rightarrow> Inr (m(name \<mapsto> v))))"

definition showControls :: "node \<Rightarrow> (string \<rightharpoonup> val) \<Rightarrow> error + (string \<rightharpoonup> val)" where
  "showControls n args = resolve_all (inputs n) args"

text \<open>
  Modelled from the spec: \<^verbatim>\<open>node.validate()\<close> holds when every declared output has been
  set to a value its requirement accepts.
\<close>

definition validate :: "node \<Rightarrow> (string \<rightharpoonup> val) \<Rightarrow> bool" where
  "validate n outs =
     list_all (\<lambda>(name, r). case outs name of None \<Rightarrow> False | Some v \<Rightarrow> accepts r v) (outputs n)"

text \<open>The declarations of the script, cell by cell.\<close>

definition equilibration_node :: node where
  "equilibration_node =
     addOutput ''rmsd'' (File ''The RMSD of the molecule.'')
    (addOutput ''equilibrated'' (FileSet ''The equilibrated molecular system.'')
    (addInput ''residue'' (String ''The name of the molecular residue.'')
    (addInput ''restrain_backbone'' (Boolean ''Whether to restrain the backbone.'' False)
    (addInput ''temperature_end''
       (Temperature ''The final temperature.'' ''kelvin''
          (times_q 0 kelvin) (times_q 1000 kelvin) (times_q 300 kelvin))
    (addInput ''temperature_start''
       (Temperature ''The initial temperature.'' ''kelvin''
          (times_q 0 kelvin) (times_q 1000 kelvin) (times_q 0 kelvin))
    (addInput ''runtime''
       (Time ''The run time.'' ''nanoseconds''
          (times_q 0 nanosecond) (times_q 10 nanosecond) (times_q (2 / 10) nanosecond))
    (addInput ''files'' (FileSet ''A set of molecular input files.'')
    (setLicense ''GPLv3''
    (addAuthor ''Lester Hedges'' ''lester.hedges@bristol.ac.uk'' ''University of Bristol''
    (Node ''A node to perform equilibration. Saves the equlibrated molecular configuration and RSMD to file.''))))))))))"

subsection \<open>The calls that leave the repository\<close>

text \<open>
  The functions of \<^verbatim>\<open>BSS.IO\<close>, \<^verbatim>\<open>BSS.MD\<close>, the system, the process and the trajectory that
  the script calls, with the two pieces of the Python runtime it relies on: the upper-case
  table beyond ASCII and the \<^verbatim>\<open>"%d %5.4f\n"\<close> formatting of an index and a float. The types
  of systems, processes, trajectories, molecules and floats are left open.
\<close>

datatype protocol =
  Equilibration (runtime: quantity) (temperature_start: quantity)
    (temperature_end: quantity) (restrain_backbone: bool)

record ('sys, 'proc, 'traj, 'mol, 'flt) externals =
  readMolecules :: "string list \<Rightarrow> 'sys option"
  fileFormat :: "'sys \<Rightarrow> string"
  getMolWithResName :: "'sys \<Rightarrow> str \<Rightarrow> 'mol option"
  run :: "'sys \<Rightarrow> protocol \<Rightarrow> 'proc option"
  getSystem :: "'proc \<Rightarrow> bool \<Rightarrow> 'sys option"
  saveMolecules :: "string \<Rightarrow> 'sys \<Rightarrow> string \<Rightarrow> string list option"
  getTrajectory :: "'proc \<Rightarrow> 'traj option"
  RMSD :: "'traj \<Rightarrow> nat \<Rightarrow> 'mol \<Rightarrow> 'flt list option"
  upper_table :: "nat \<Rightarrow> str"
  format_line :: "nat \<Rightarrow> 'flt \<Rightarrow> string"

subsection \<open>The script\<close>

text \<open>
  Exceptions end the script: \<open>bind_e\<close> passes the first error on, \<open>call\<close> turns a library
  call that raised into the error naming it, and the \<open>as_\<close> functions read a settled input
  at the type the script uses it at.
\<close>

definition bind_e :: "error + 'a \<Rightarrow> ('a \<Rightarrow> error + 'b) \<Rightarrow> error + 'b" where
  "bind_e m f = (case m of Inl e \<Rightarrow> Inl e | Inr v \<Rightarrow> f v)"

definition call :: "string \<Rightarrow> 'a option \<Rightarrow> error + 'a" where
  "call name r = (case r of None \<Rightarrow> Inl (Raised name) | Some v \<Rightarrow> Inr v)"

fun as_files :: "val option \<Rightarrow> error + string list" where
  "as_files (Some (FilesV fs)) = Inr fs"
| "as_files _ = Inl (Raised ''getInput'')"

fun as_quantity :: "val option \<Rightarrow> error + quantity" where
  "as_quantity (Some (QuantityV q)) = Inr q"
| "as_quantity _ = Inl (Raised ''getInput'')"

fun as_bool :: "val option \<Rightarrow> error + bool" where
  "as_bool (Some (BoolV b)) = Inr b"
| "as_bool _ = Inl (Raised ''getInput'')"

fun as_str :: "val option \<Rightarrow> error + str" where
  "as_str (Some (StringV s)) = Inr s"
| "as_str _ = Inl (Raised ''getInput'')"

text \<open>
  What a run leaves behind: the outputs set on the node, the file the script writes itself
  (path and lines), and the protocol it built.
\<close>

record result =
  node_outputs :: "string \<rightharpoonup> val"
  written :: "(string \<times> string list) list"
  used_protocol :: protocol

text \<open>
  The molecule handed to \<^verbatim>\<open>RMSD\<close>:
  \<^verbatim>\<open>system.getMolWithResName(node.getInput("residue").upper())\<close>.
\<close>

definition rmsd_molecule ::
  "('sys, 'proc, 'traj, 'mol, 'flt) externals \<Rightarrow> 'sys \<Rightarrow> str \<Rightarrow> 'mol option" where
  "rmsd_molecule X system residue = getMolWithResName X system (upper (upper_table X) residue)"

text \<open>The lines of \<^verbatim>\<open>rmsd.txt\<close>: one per value, with its index from \<open>0\<close>.\<close>

definition rmsd_lines :: "('sys, 'proc, 'traj, 'mol, 'flt) externals \<Rightarrow> 'flt list \<Rightarrow> string list" where
  "rmsd_lines X rmsd = map (\<lambda>(index, value). format_line X index value) (enumerate 0 rmsd)"

definition equilibration ::
  "('sys, 'proc, 'traj, 'mol, 'flt) externals \<Rightarrow> (string \<rightharpoonup> val) \<Rightarrow> error + result" where
  "equilibration X args =
     bind_e (showControls equilibration_node args) (\<lambda>vals.
     bind_e (as_files (vals ''files'')) (\<lambda>files.
     bind_e (call ''readMolecules'' (readMolecules X files)) (\<lambda>system.
     bind_e (as_quantity (vals ''runtime'')) (\<lambda>rt.
     bind_e (as_quantity (vals ''temperature_start'')) (\<lambda>t0.
     bind_e (as_quantity (vals ''temperature_end'')) (\<lambda>t1.
     bind_e (as_bool (vals ''restrain_backbone'')) (\<lambda>rb.
     let protocol = Equilibration rt t0 t1 rb in
     bind_e (call ''run'' (run X system protocol)) (\<lambda>process.
     bind_e (call ''getSystem'' (getSystem X process True)) (\<lambda>final.
     bind_e (call ''saveMolecules''
               (saveMolecules X ''equilibrated'' final (fileFormat X system))) (\<lambda>saved.
     let outs = [''equilibrated'' \<mapsto> FilesV saved] in
     bind_e (call ''getTrajectory'' (getTrajectory X process)) (\<lambda>traj.
     bind_e (as_str (vals ''residue'')) (\<lambda>residue.
     bind_e (call ''getMolWithResName'' (rmsd_molecule X system residue)) (\<lambda>molecule.
     bind_e (call ''RMSD'' (RMSD X traj 0 molecule)) (\<lambda>rmsd.
     let file = (''rmsd.txt'', rmsd_lines X rmsd);
         outs = outs(''rmsd'' \<mapsto> FileV ''rmsd.txt'') in
     if validate equilibration_node outs
     then Inr \<lparr>node_outputs = outs, written = [file], used_protocol = protocol\<rparr>
     else Inl (Raised ''validate'')))))))))))))))"

text \<open>
  A run is rejected when it ends in the error of an input that could not be settled. That
  error is produced by \<open>showControls\<close> alone, which the script calls before it reads a
  file or starts a process.
\<close>

fun rejected :: "error + 'a \<Rightarrow> bool" where
  "rejected (Inl (Rejected name)) = True"
| "rejected _ = False"

subsection \<open>An instance of the package interface\<close>

text \<open>
  To run the script on concrete inputs the calls need values. In this instance a file's
  format is its extension, a system is the format and the names of the files it was read
  from, a process is the system with its protocol, a trajectory is its number of frames,
  and the only residue known is \<open>ALA\<close>. It is used for concrete runs only; the properties
  below hold for every instance.
\<close>

definition extension :: "string \<Rightarrow> string" where
  "extension f = rev (takeWhile (\<lambda>c. c \<noteq> CHR ''.'') (rev f))"

definition format_of_files :: "string list \<Rightarrow> string" where
  "format_of_files fs = (case fs of [] \<Rightarrow> [] | f # rest \<Rightarrow> extension f)"

definition demo ::
  "(string \<times> string list, (string \<times> string list) \<times> protocol, nat, str, rat) externals" where
  "demo =
     \<lparr>readMolecules = (\<lambda>fs. if fs = [] then None else Some (format_of_files fs, fs)),
      fileFormat = fst,
      getMolWithResName = (\<lambda>system name. if name = str_of ''ALA'' then Some name else None),
      run = (\<lambda>system protocol. Some (system, protocol)),
      getSystem = (\<lambda>process block. Some (fst process)),
      saveMolecules = (\<lambda>name system format. Some [name @ ''.'' @ format]),
      getTrajectory = (\<lambda>process. Some 2),
      RMSD = (\<lambda>traj frame molecule. Some (replicate traj 0)),
      upper_table = (\<lambda>c. [c]),
      format_line = (\<lambda>index value. ''0.0000'')\<rparr>"

definition demo_args :: "string \<rightharpoonup> val" where
  "demo_args = [''files'' \<mapsto> FilesV [''input/ala.crd'', ''input/ala.top''],
                ''residue'' \<mapsto> StringV (str_of ''ala'')]"

text \<open>
  Python's two tables at the code points from 128 that the examples use. Sharp s (223)
  has the upper-case form \<open>SS\<close>; capital sharp s (7838) and the Kelvin sign (8490) are
  upper case already, with the lower-case forms sharp s and \<open>k\<close> (107). At any other code
  point these excerpts give the code point back, which is Python's answer only where the
  code point has no other case; no example evaluates them there.
\<close>

definition python_upper_excerpt :: "nat \<Rightarrow> str" where
  "python_upper_excerpt c = (if c = 223 then [83, 83] else [c])"

definition python_lower_excerpt :: "nat \<Rightarrow> str" where
  "python_lower_excerpt c = (if c = 8490 then [107] else if c = 7838 then [223] else [c])"

text \<open>
  The instance again, with that upper-case table and with a second residue, \<open>K\<close>, in the
  system.
\<close>

definition demo_unicode ::
  "(string \<times> string list, (string \<times> string list) \<times> protocol, nat, str, rat) externals" where
  "demo_unicode =
     demo\<lparr>getMolWithResName :=
            (\<lambda>system name. if name = str_of ''ALA'' \<or> name = str_of ''K'' then Some name else None),
          upper_table := python_upper_excerpt\<rparr>"

section \<open>Properties\<close>

subsection \<open>Upper-casing\<close>

lemma upper_cp_case_variant:
  "case_variant c d \<Longrightarrow> upper_cp uc c = upper_cp uc d"
  unfolding case_variant_def is_ascii_upper_def upper_cp_def by auto

lemma upper_differ_only_in_case:
  "differ_only_in_case s t \<Longrightarrow> upper uc s = upper uc t"
  unfolding differ_only_in_case_def upper_def
  by (induction s t rule: list_all2_induct) (simp_all add: upper_cp_case_variant)

subsection \<open>The declarations and the settling of inputs\<close>

lemma equilibration_inputs:
  "inputs equilibration_node =
     [(''files'', FileSet ''A set of molecular input files.''),
      (''runtime'', Time ''The run time.'' ''nanoseconds''
         (Quantity 0 NANOSECOND) (Quantity 10 NANOSECOND) (Quantity (2 / 10) NANOSECOND)),
      (''temperature_start'', Temperature ''The initial temperature.'' ''kelvin''
         (Quantity 0 KELVIN) (Quantity 1000 KELVIN) (Quantity 0 KELVIN)),
      (''temperature_end'', Temperature ''The final temperature.'' ''kelvin''
         (Quantity 0 KELVIN) (Quantity 1000 KELVIN) (Quantity 300 KELVIN)),
      (''restrain_backbone'', Boolean ''Whether to restrain the backbone.'' False),
      (''residue'', String ''The name of the molecular residue.'')]"
  by (simp add: equilibration_node_def addInput_def addOutput_def setLicense_def addAuthor_def
      Node_def nanosecond_def kelvin_def)

lemma equilibration_outputs:
  "outputs equilibration_node =
     [(''equilibrated'', FileSet ''The equilibrated molecular system.''),
      (''rmsd'', File ''The RMSD of the molecule.'')]"
  by (simp add: equilibration_node_def addInput_def addOutput_def setLicense_def addAuthor_def
      Node_def)

lemma bind_e_Inr: "bind_e m f = Inr y \<longleftrightarrow> (\<exists>x. m = Inr x \<and> f x = Inr y)"
  by (cases m) (simp_all add: bind_e_def)

lemma bind_e_Inl [simp]: "bind_e (Inl e) f = Inl e"
  by (simp add: bind_e_def)

lemma bind_e_Inr_simp [simp]: "bind_e (Inr x) f = f x"
  by (simp add: bind_e_def)

lemma rejected_bind: "rejected m \<Longrightarrow> rejected (bind_e m f)"
  by (cases m rule: rejected.cases) (simp_all add: bind_e_def)

lemma call_Inr: "call name r = Inr v \<longleftrightarrow> r = Some v"
  by (cases r) (simp_all add: call_def)

lemma resolve_all_missing:
  "(name, r) \<in> set rs \<Longrightarrow> resolve r (args name) = None \<Longrightarrow> rejected (resolve_all rs args)"
proof (induction rs)
  case Nil
  then show ?case by simp
next
  case (Cons p rs)
  obtain n q where p: "p = (n, q)" by (cases p)
  show ?case
  proof (cases "resolve q (args n)")
    case None
    then show ?thesis by (simp add: p)
  next
    case (Some v)
    show ?thesis
    proof (cases "(name, r) = p")
      case True
      with Cons.prems Some p show ?thesis by simp
    next
      case False
      with Cons have "rejected (resolve_all rs args)" by simp
      then show ?thesis using Some by (cases "resolve_all rs args") (simp_all add: p)
    qed
  qed
qed

lemma resolve_all_value:
  "distinct (map fst rs) \<Longrightarrow> (name, r) \<in> set rs \<Longrightarrow> resolve_all rs args = Inr vals \<Longrightarrow>
   vals name = resolve r (args name) \<and> resolve r (args name) \<noteq> None"
proof (induction rs arbitrary: vals)
  case Nil
  then show ?case by simp
next
  case (Cons p rs)
  obtain n q where p: "p = (n, q)" by (cases p)
  from Cons.prems(3) obtain v m where v: "resolve q (args n) = Some v"
    and m: "resolve_all rs args = Inr m" and vals: "vals = m(n \<mapsto> v)"
    by (auto simp: p split: option.splits sum.splits)
  show ?case
  proof (cases "(name, r) = p")
    case True
    then show ?thesis using v vals p by auto
  next
    case False
    with Cons.prems have in_rs: "(name, r) \<in> set rs" by simp
    with Cons.prems(1) have "name \<noteq> n" using p by (force simp: image_iff)
    moreover from Cons.IH[OF _ in_rs m] Cons.prems(1)
    have "m name = resolve r (args name) \<and> resolve r (args name) \<noteq> None" by simp
    ultimately show ?thesis using vals by simp
  qed
qed

lemma showControls_rejects:
  assumes "(name, r) \<in> set (inputs equilibration_node)" "resolve r (args name) = None"
  shows "rejected (equilibration X args)"
  unfolding equilibration_def showControls_def
  by (rule rejected_bind) (rule resolve_all_missing[where name = name and args = args, OF assms])

lemma showControls_value:
  assumes "showControls equilibration_node args = Inr vals"
    and "(name, r) \<in> set (inputs equilibration_node)"
  shows "vals name = resolve r (args name)"
proof -
  have "distinct (map fst (inputs equilibration_node))"
    by (simp add: equilibration_inputs)
  from resolve_all_value[OF this assms(2) assms(1)[unfolded showControls_def]]
  show ?thesis by simp
qed

lemma run_demo: "equilibration demo demo_args =
  Inr \<lparr>node_outputs = [''equilibrated'' \<mapsto> FilesV [''equilibrated.crd''], ''rmsd'' \<mapsto> FileV ''rmsd.txt''],
       written = [(''rmsd.txt'', [''0.0000'', ''0.0000''])],
       used_protocol = Equilibration (Quantity (2 / 10) NANOSECOND) (Quantity 0 KELVIN) (Quantity 300 KELVIN) False\<rparr>"
  by (simp add: equilibration_def showControls_def equilibration_inputs equilibration_outputs
      validate_def demo_def demo_args_def call_def rmsd_molecule_def rmsd_lines_def enumerate_eq_zip
      format_of_files_def extension_def str_of_def upper_def upper_cp_def Let_def numeral_2_eq_2)

subsection \<open>Bounded and defaulted inputs\<close>

text \<open>
  Claim C8. The equilibration node declares, in this order, \<open>files\<close> (no default),
  \<open>runtime\<close> from 0 to 10 nanoseconds with default 0.2 nanoseconds, \<open>temperature_start\<close>
  and \<open>temperature_end\<close> from 0 to 1000 kelvin with defaults 0 and 300 kelvin,
  \<open>restrain_backbone\<close> with default \<open>False\<close>, and \<open>residue\<close> (no default). A run that
  leaves out \<open>files\<close> or \<open>residue\<close> is rejected; a run whose \<open>runtime\<close>, \<open>temperature_start\<close>
  or \<open>temperature_end\<close> lies below its minimum or above its maximum is rejected, whatever
  the package's functions are, so nothing is read and nothing is run; and an input left
  out that has a default takes that default. The declarations are the script's; what it
  means to validate a value against them is modelled from the spec.
\<close>

theorem equilibration_inputs_bounded:
  "inputs equilibration_node =
     [(''files'', FileSet ''A set of molecular input files.''),
      (''runtime'', Time ''The run time.'' ''nanoseconds''
         (Quantity 0 NANOSECOND) (Quantity 10 NANOSECOND) (Quantity (2 / 10) NANOSECOND)),
      (''temperature_start'', Temperature ''The initial temperature.'' ''kelvin''
         (Quantity 0 KELVIN) (Quantity 1000 KELVIN) (Quantity 0 KELVIN)),
      (''temperature_end'', Temperature ''The final temperature.'' ''kelvin''
         (Quantity 0 KELVIN) (Quantity 1000 KELVIN) (Quantity 300 KELVIN)),
      (''restrain_backbone'', Boolean ''Whether to restrain the backbone.'' False),
      (''residue'', String ''The name of the molecular residue.'')] \<and>
   (args ''files'' = None \<or> args ''residue'' = None \<longrightarrow> rejected (equilibration X args)) \<and>
   (args ''runtime'' = Some (QuantityV q) \<and> (magnitude q < 0 \<or> 10 < magnitude q)
      \<longrightarrow> rejected (equilibration X args)) \<and>
   (args ''temperature_start'' = Some (QuantityV q) \<and> (magnitude q < 0 \<or> 1000 < magnitude q)
      \<longrightarrow> rejected (equilibration X args)) \<and>
   (args ''temperature_end'' = Some (QuantityV q) \<and> (magnitude q < 0 \<or> 1000 < magnitude q)
      \<longrightarrow> rejected (equilibration X args)) \<and>
   (showControls equilibration_node args = Inr vals \<longrightarrow>
      (args ''runtime'' = None \<longrightarrow> vals ''runtime'' = Some (QuantityV (Quantity (2 / 10) NANOSECOND))) \<and>
      (args ''temperature_start'' = None \<longrightarrow> vals ''temperature_start'' = Some (QuantityV (Quantity 0 KELVIN))) \<and>
      (args ''temperature_end'' = None \<longrightarrow> vals ''temperature_end'' = Some (QuantityV (Quantity 300 KELVIN))) \<and>
      (args ''restrain_backbone'' = None \<longrightarrow> vals ''restrain_backbone'' = Some (BoolV False)))"
proof (intro conjI impI)
  show "inputs equilibration_node =
     [(''files'', FileSet ''A set of molecular input files.''),
      (''runtime'', Time ''The run time.'' ''nanoseconds''
         (Quantity 0 NANOSECOND) (Quantity 10 NANOSECOND) (Quantity (2 / 10) NANOSECOND)),
      (''temperature_start'', Temperature ''The initial temperature.'' ''kelvin''
         (Quantity 0 KELVIN) (Quantity 1000 KELVIN) (Quantity 0 KELVIN)),
      (''temperature_end'', Temperature ''The final temperature.'' ''kelvin''
         (Quantity 0 KELVIN) (Quantity 1000 KELVIN) (Quantity 300 KELVIN)),
      (''restrain_backbone'', Boolean ''Whether to restrain the backbone.'' False),
      (''residue'', String ''The name of the molecular residue.'')]"
    by (rule equilibration_inputs)
next
  assume "args ''files'' = None \<or> args ''residue'' = None"
  then show "rejected (equilibration X args)"
  proof
    assume "args ''files'' = None"
    then show ?thesis
      by (intro showControls_rejects[where name = "''files''"
            and r = "FileSet ''A set of molecular input files.''"])
         (simp_all add: equilibration_inputs)
  next
    assume "args ''residue'' = None"
    then show ?thesis
      by (intro showControls_rejects[where name = "''residue''"
            and r = "String ''The name of the molecular residue.''"])
         (simp_all add: equilibration_inputs)
  qed
next
  assume "args ''runtime'' = Some (QuantityV q) \<and> (magnitude q < 0 \<or> 10 < magnitude q)"
  then show "rejected (equilibration X args)"
    by (intro showControls_rejects[where name = "''runtime''"
          and r = "Time ''The run time.'' ''nanoseconds''
            (Quantity 0 NANOSECOND) (Quantity 10 NANOSECOND) (Quantity (2 / 10) NANOSECOND)"])
       (auto simp: equilibration_inputs)
next
  assume "args ''temperature_start'' = Some (QuantityV q) \<and> (magnitude q < 0 \<or> 1000 < magnitude q)"
  then show "rejected (equilibration X args)"
    by (intro showControls_rejects[where name = "''temperature_start''"
          and r = "Temperature ''The initial temperature.'' ''kelvin''
            (Quantity 0 KELVIN) (Quantity 1000 KELVIN) (Quantity 0 KELVIN)"])
       (auto simp: equilibration_inputs)
next
  assume "args ''temperature_end'' = Some (QuantityV q) \<and> (magnitude q < 0 \<or> 1000 < magnitude q)"
  then show "rejected (equilibration X args)"
    by (intro showControls_rejects[where name = "''temperature_end''"
          and r = "Temperature ''The final temperature.'' ''kelvin''
            (Quantity 0 KELVIN) (Quantity 1000 KELVIN) (Quantity 300 KELVIN)"])
       (auto simp: equilibration_inputs)
next
  assume sc: "showControls equilibration_node args = Inr vals" and "args ''runtime'' = None"
  then show "vals ''runtime'' = Some (QuantityV (Quantity (2 / 10) NANOSECOND))"
    using showControls_value[OF sc, of "''runtime''" "Time ''The run time.'' ''nanoseconds''
            (Quantity 0 NANOSECOND) (Quantity 10 NANOSECOND) (Quantity (2 / 10) NANOSECOND)"]
    by (simp add: equilibration_inputs)
next
  assume sc: "showControls equilibration_node args = Inr vals" and "args ''temperature_start'' = None"
  then show "vals ''temperature_start'' = Some (QuantityV (Quantity 0 KELVIN))"
    using showControls_value[OF sc, of "''temperature_start''" "Temperature ''The initial temperature.'' ''kelvin''
            (Quantity 0 KELVIN) (Quantity 1000 KELVIN) (Quantity 0 KELVIN)"]
    by (simp add: equilibration_inputs)
next
  assume sc: "showControls equilibration_node args = Inr vals" and "args ''temperature_end'' = None"
  then show "vals ''temperature_end'' = Some (QuantityV (Quantity 300 KELVIN))"
    using showControls_value[OF sc, of "''temperature_end''" "Temperature ''The final temperature.'' ''kelvin''
            (Quantity 0 KELVIN) (Quantity 1000 KELVIN) (Quantity 300 KELVIN)"]
    by (simp add: equilibration_inputs)
next
  assume sc: "showControls equilibration_node args = Inr vals" and "args ''restrain_backbone'' = None"
  then show "vals ''restrain_backbone'' = Some (BoolV False)"
    using showControls_value[OF sc, of "''restrain_backbone''" "Boolean ''Whether to restrain the backbone.'' False"]
    by (simp add: equilibration_inputs)
qed

theorem equilibration_inputs_bounded_witness:
  "Map.empty ''files'' = (None :: val option) \<and>
   rejected (equilibration demo Map.empty) \<and>
   (demo_args(''runtime'' \<mapsto> QuantityV (Quantity 11 NANOSECOND))) ''runtime''
     = Some (QuantityV (Quantity 11 NANOSECOND)) \<and>
   10 < magnitude (Quantity 11 NANOSECOND) \<and>
   rejected (equilibration demo (demo_args(''runtime'' \<mapsto> QuantityV (Quantity 11 NANOSECOND)))) \<and>
   (demo_args(''temperature_start'' \<mapsto> QuantityV (Quantity (- 1) KELVIN))) ''temperature_start''
     = Some (QuantityV (Quantity (- 1) KELVIN)) \<and>
   magnitude (Quantity (- 1) KELVIN) < 0 \<and>
   rejected (equilibration demo (demo_args(''temperature_start'' \<mapsto> QuantityV (Quantity (- 1) KELVIN)))) \<and>
   (demo_args(''temperature_end'' \<mapsto> QuantityV (Quantity 1001 KELVIN))) ''temperature_end''
     = Some (QuantityV (Quantity 1001 KELVIN)) \<and>
   1000 < magnitude (Quantity 1001 KELVIN) \<and>
   rejected (equilibration demo (demo_args(''temperature_end'' \<mapsto> QuantityV (Quantity 1001 KELVIN)))) \<and>
   demo_args ''runtime'' = None \<and> demo_args ''temperature_start'' = None \<and>
   demo_args ''temperature_end'' = None \<and> demo_args ''restrain_backbone'' = None \<and>
   (\<exists>vals. showControls equilibration_node demo_args = Inr vals \<and>
      vals ''runtime'' = Some (QuantityV (Quantity (2 / 10) NANOSECOND)) \<and>
      vals ''temperature_start'' = Some (QuantityV (Quantity 0 KELVIN)) \<and>
      vals ''temperature_end'' = Some (QuantityV (Quantity 300 KELVIN)) \<and>
      vals ''restrain_backbone'' = Some (BoolV False))"
proof -
  have none: "demo_args ''runtime'' = None" "demo_args ''temperature_start'' = None"
    "demo_args ''temperature_end'' = None" "demo_args ''restrain_backbone'' = None"
    by (simp_all add: demo_args_def)
  have a: "rejected (equilibration demo Map.empty)"
    using equilibration_inputs_bounded[where args = Map.empty and X = demo] by simp
  have b: "rejected (equilibration demo (demo_args(''runtime'' \<mapsto> QuantityV (Quantity 11 NANOSECOND))))"
    using equilibration_inputs_bounded[where X = demo and q = "Quantity 11 NANOSECOND"
        and args = "demo_args(''runtime'' \<mapsto> QuantityV (Quantity 11 NANOSECOND))"]
    by simp
  have c: "rejected (equilibration demo (demo_args(''temperature_start'' \<mapsto> QuantityV (Quantity (- 1) KELVIN))))"
    using equilibration_inputs_bounded[where X = demo and q = "Quantity (- 1) KELVIN"
        and args = "demo_args(''temperature_start'' \<mapsto> QuantityV (Quantity (- 1) KELVIN))"]
    by simp
  have d: "rejected (equilibration demo (demo_args(''temperature_end'' \<mapsto> QuantityV (Quantity 1001 KELVIN))))"
    using equilibration_inputs_bounded[where X = demo and q = "Quantity 1001 KELVIN"
        and args = "demo_args(''temperature_end'' \<mapsto> QuantityV (Quantity 1001 KELVIN))"]
    by simp
  obtain vals where sc: "showControls equilibration_node demo_args = Inr vals"
    by (simp add: showControls_def equilibration_inputs demo_args_def)
  have e: "vals ''runtime'' = Some (QuantityV (Quantity (2 / 10) NANOSECOND)) \<and>
      vals ''temperature_start'' = Some (QuantityV (Quantity 0 KELVIN)) \<and>
      vals ''temperature_end'' = Some (QuantityV (Quantity 300 KELVIN)) \<and>
      vals ''restrain_backbone'' = Some (BoolV False)"
    using equilibration_inputs_bounded[where args = demo_args and vals = vals] sc none by blast
  from a b c d e sc none show ?thesis by simp
qed

subsection \<open>The output keeps the input's file format\<close>

text \<open>
  Claim C7. The equilibrated system is saved in the file format of the input system. Let
  the input files \<open>fs\<close> be files that \<open>readMolecules\<close> reads as a system of format \<open>F\<close>, and
  let \<open>saveMolecules\<close>, asked for format \<open>F\<close>, write files that are in format \<open>F\<close>
  (\<open>format_of\<close> is the format a set of files is in). Then every run of the node that
  succeeds sets its output \<open>equilibrated\<close> to a set of files in format \<open>F\<close>: the script asks
  \<open>saveMolecules\<close> for \<open>system.fileFormat()\<close> of the system it read, not for the format of
  the system the process returns and not for a fixed one.
\<close>

theorem output_format_matches_input:
  assumes ok: "equilibration X args = Inr res"
    and files: "args ''files'' = Some (FilesV fs)"
    and read_F: "\<forall>system. readMolecules X fs = Some system \<longrightarrow> fileFormat X system = F"
    and save_F: "\<forall>name system ws. saveMolecules X name system F = Some ws \<longrightarrow> format_of ws = F"
  shows "\<exists>ws. node_outputs res ''equilibrated'' = Some (FilesV ws) \<and> format_of ws = F"
proof -
  from ok obtain vals fls system final saved
    where sc: "showControls equilibration_node args = Inr vals"
      and fl: "as_files (vals ''files'') = Inr fls"
      and rd: "readMolecules X fls = Some system"
      and sv: "saveMolecules X ''equilibrated'' final (fileFormat X system) = Some saved"
      and out: "node_outputs res ''equilibrated'' = Some (FilesV saved)"
    by (auto simp: equilibration_def bind_e_Inr call_Inr Let_def split: if_splits)
  have "vals ''files'' = Some (FilesV fs)"
    using showControls_value[OF sc, of "''files''" "FileSet ''A set of molecular input files.''"] files
    by (simp add: equilibration_inputs)
  with fl have "fls = fs" by simp
  note rd = rd[unfolded this]
  from read_F rd have "fileFormat X system = F" by simp
  with save_F sv have "format_of saved = F" by blast
  with out show ?thesis by blast
qed

theorem output_format_matches_input_witness:
  "\<exists>res. equilibration demo demo_args = Inr res \<and>
     demo_args ''files'' = Some (FilesV [''input/ala.crd'', ''input/ala.top'']) \<and>
     format_of_files [''input/ala.crd'', ''input/ala.top''] = ''crd'' \<and>
     node_outputs res ''equilibrated'' = Some (FilesV [''equilibrated.crd'']) \<and>
     format_of_files [''equilibrated.crd''] = ''crd''"
proof -
  let ?fs = "[''input/ala.crd'', ''input/ala.top'']"
  obtain res where ok: "equilibration demo demo_args = Inr res"
    and out: "node_outputs res ''equilibrated'' = Some (FilesV [''equilibrated.crd''])"
    by (simp add: run_demo)
  have files: "demo_args ''files'' = Some (FilesV ?fs)"
    by (simp add: demo_args_def)
  have fmt: "format_of_files ?fs = ''crd''"
    by (simp add: format_of_files_def extension_def)
  have read_F: "\<forall>system. readMolecules demo ?fs = Some system \<longrightarrow> fileFormat demo system = ''crd''"
    by (auto simp: demo_def fmt)
  have save_F: "\<forall>name system ws. saveMolecules demo name system ''crd'' = Some ws
      \<longrightarrow> format_of_files ws = ''crd''"
    by (auto simp: demo_def format_of_files_def extension_def)
  from output_format_matches_input[OF ok files read_F save_F] out
  have "format_of_files [''equilibrated.crd''] = ''crd''" by simp
  with ok files fmt out show ?thesis by blast
qed

subsection \<open>The residue name is upper-cased before the lookup\<close>

lemma case_variant_letter_case_variant:
  "case_variant c d \<Longrightarrow> letter_case_variant uc lc c d"
  unfolding case_variant_def letter_case_variant_def is_ascii_upper_def lower_cp_def by auto

lemma differ_only_in_case_letter_case:
  "differ_only_in_case s t \<Longrightarrow> differ_only_in_letter_case uc lc s t"
  unfolding differ_only_in_case_def differ_only_in_letter_case_def
  by (erule list_all2_mono) (rule case_variant_letter_case_variant)

lemma upper_cp_ascii:
  "c < 128 \<Longrightarrow> \<exists>d. upper_cp uc c = [d] \<and> case_variant c d \<and> \<not> is_ascii_lower d"
  unfolding upper_cp_def case_variant_def is_ascii_upper_def is_ascii_lower_def by auto

lemma upper_Cons: "upper uc (c # s) = upper_cp uc c @ upper uc s"
  by (simp add: upper_def)

lemma upper_ascii:
  "\<forall>c\<in>set s. c < 128 \<Longrightarrow>
   length (upper uc s) = length s \<and> differ_only_in_case s (upper uc s) \<and>
   (\<forall>c\<in>set (upper uc s). \<not> is_ascii_lower c)"
proof (induction s)
  case Nil
  then show ?case by (simp add: upper_def differ_only_in_case_def)
next
  case (Cons c s)
  then have "c < 128" by simp
  from upper_cp_ascii[OF this, of uc] obtain d
    where d: "upper_cp uc c = [d]" "case_variant c d" "\<not> is_ascii_lower d" by blast
  from Cons have "length (upper uc s) = length s \<and> differ_only_in_case s (upper uc s) \<and>
   (\<forall>c\<in>set (upper uc s). \<not> is_ascii_lower c)" by simp
  with d show ?case by (simp add: upper_Cons differ_only_in_case_def)
qed

lemma run_same_upper:
  assumes up: "upper (upper_table X) s = upper (upper_table X) t"
  shows "equilibration X (args(''residue'' \<mapsto> StringV s)) =
         equilibration X (args(''residue'' \<mapsto> StringV t))"
proof -
  have mol: "rmsd_molecule X system s = rmsd_molecule X system t" for system
    using up by (simp add: rmsd_molecule_def)
  show ?thesis
    unfolding equilibration_def showControls_def equilibration_inputs
    by (simp add: mol split: option.splits sum.splits)
qed

lemma run_looks_up_upper:
  assumes ok: "equilibration X args = Inr res"
    and residue: "args ''residue'' = Some (StringV s)"
    and files: "args ''files'' = Some (FilesV fs)"
  shows "\<exists>system traj molecule rmsd.
           readMolecules X fs = Some system \<and>
           getMolWithResName X system (upper (upper_table X) s) = Some molecule \<and>
           RMSD X traj 0 molecule = Some rmsd \<and>
           written res = [(''rmsd.txt'', rmsd_lines X rmsd)]"
proof -
  from ok obtain vals fls system r traj molecule rmsd
    where sc: "showControls equilibration_node args = Inr vals"
      and fl: "as_files (vals ''files'') = Inr fls"
      and rd: "readMolecules X fls = Some system"
      and rs: "as_str (vals ''residue'') = Inr r"
      and mol: "getMolWithResName X system (upper (upper_table X) r) = Some molecule"
      and rm: "RMSD X traj 0 molecule = Some rmsd"
      and wr: "written res = [(''rmsd.txt'', rmsd_lines X rmsd)]"
    by (auto simp: equilibration_def bind_e_Inr call_Inr Let_def rmsd_molecule_def
        split: if_splits)
  have "vals ''files'' = Some (FilesV fs)"
    using showControls_value[OF sc, of "''files''" "FileSet ''A set of molecular input files.''"] files
    by (simp add: equilibration_inputs)
  with fl have fls: "fls = fs" by simp
  have "vals ''residue'' = Some (StringV s)"
    using showControls_value[OF sc, of "''residue''" "String ''The name of the molecular residue.''"] residue
    by (simp add: equilibration_inputs)
  with rs have r: "r = s" by simp
  from rd mol rm wr show ?thesis unfolding fls r by blast
qed

text \<open>
  Claim C9 says that for every residue string, inputs that differ only in letter case
  select the same molecule. Over all of Unicode that fails. The Kelvin sign and \<open>k\<close> differ
  only in letter case, since \<open>k\<close> is the lower-case form of the Kelvin sign. But \<open>k\<close> is
  upper-cased to \<open>K\<close> and the Kelvin sign stays as it is, so in a system with a residue \<open>K\<close>
  the first lookup finds the molecule and the second finds none.
\<close>

theorem residue_case_insensitive_counterexample:
  "differ_only_in_letter_case (upper_table demo_unicode) python_lower_excerpt [8490] [107] \<and>
   upper (upper_table demo_unicode) [8490] = [8490] \<and>
   upper (upper_table demo_unicode) [107] = [75] \<and>
   rmsd_molecule demo_unicode (''crd'', [''input/ala.crd'']) [8490] = None \<and>
   rmsd_molecule demo_unicode (''crd'', [''input/ala.crd'']) [107] = Some [75] \<and>
   rmsd_molecule demo_unicode (''crd'', [''input/ala.crd'']) [8490] \<noteq>
   rmsd_molecule demo_unicode (''crd'', [''input/ala.crd'']) [107]"
  by (simp add: differ_only_in_letter_case_def letter_case_variant_def lower_cp_def upper_cp_def
      upper_def python_lower_excerpt_def python_upper_excerpt_def demo_unicode_def demo_def
      rmsd_molecule_def str_of_def)

text \<open>
  Claim C9, amended. The residue input is converted to upper case before the molecule is
  looked up: the molecule for the RMSD is \<open>getMolWithResName\<close> of the system at the
  upper-cased residue string. On an ASCII string, upper-casing keeps the length, changes
  nothing but the case of ASCII letters and leaves no lower-case ASCII letter. Residue
  strings that differ only in the case of ASCII letters, all other code points equal, have
  the same upper-case form; and residue strings with the same upper-case form select the
  same molecule and give the same run of the node. A run that succeeds has read the system
  from the input files, found the molecule at the upper-cased residue in that system, and
  written to \<^verbatim>\<open>rmsd.txt\<close> the RMSD of that molecule.
\<close>

theorem residue_upper_cased_before_lookup:
  "rmsd_molecule X system s = getMolWithResName X system (upper (upper_table X) s) \<and>
   ((\<forall>c\<in>set s. c < 128) \<longrightarrow>
      length (upper (upper_table X) s) = length s \<and>
      differ_only_in_case s (upper (upper_table X) s) \<and>
      (\<forall>c\<in>set (upper (upper_table X) s). \<not> is_ascii_lower c)) \<and>
   (differ_only_in_case s t \<longrightarrow>
      upper (upper_table X) s = upper (upper_table X) t \<and>
      rmsd_molecule X system s = rmsd_molecule X system t \<and>
      equilibration X (args(''residue'' \<mapsto> StringV s)) =
      equilibration X (args(''residue'' \<mapsto> StringV t))) \<and>
   (upper (upper_table X) s = upper (upper_table X) t \<longrightarrow>
      rmsd_molecule X system s = rmsd_molecule X system t \<and>
      equilibration X (args(''residue'' \<mapsto> StringV s)) =
      equilibration X (args(''residue'' \<mapsto> StringV t))) \<and>
   (equilibration X args' = Inr res \<and> args' ''residue'' = Some (StringV s) \<and>
    args' ''files'' = Some (FilesV fs) \<longrightarrow>
      (\<exists>system' traj molecule rmsd.
         readMolecules X fs = Some system' \<and>
         getMolWithResName X system' (upper (upper_table X) s) = Some molecule \<and>
         RMSD X traj 0 molecule = Some rmsd \<and>
         written res = [(''rmsd.txt'', rmsd_lines X rmsd)]))"
proof (intro conjI impI)
  show "rmsd_molecule X system s = getMolWithResName X system (upper (upper_table X) s)"
    by (simp add: rmsd_molecule_def)
next
  assume "\<forall>c\<in>set s. c < 128"
  from upper_ascii[OF this, of "upper_table X"]
  show "length (upper (upper_table X) s) = length s"
    and "differ_only_in_case s (upper (upper_table X) s)"
    and "\<forall>c\<in>set (upper (upper_table X) s). \<not> is_ascii_lower c"
    by simp_all
next
  assume d: "differ_only_in_case s t"
  then show up: "upper (upper_table X) s = upper (upper_table X) t"
    by (rule upper_differ_only_in_case)
  then show "rmsd_molecule X system s = rmsd_molecule X system t"
    by (simp add: rmsd_molecule_def)
  from up show "equilibration X (args(''residue'' \<mapsto> StringV s)) =
      equilibration X (args(''residue'' \<mapsto> StringV t))"
    by (rule run_same_upper)
next
  assume up: "upper (upper_table X) s = upper (upper_table X) t"
  then show "rmsd_molecule X system s = rmsd_molecule X system t"
    by (simp add: rmsd_molecule_def)
  from up show "equilibration X (args(''residue'' \<mapsto> StringV s)) =
      equilibration X (args(''residue'' \<mapsto> StringV t))"
    by (rule run_same_upper)
next
  assume "equilibration X args' = Inr res \<and> args' ''residue'' = Some (StringV s) \<and>
    args' ''files'' = Some (FilesV fs)"
  then show "\<exists>system' traj molecule rmsd.
         readMolecules X fs = Some system' \<and>
         getMolWithResName X system' (upper (upper_table X) s) = Some molecule \<and>
         RMSD X traj 0 molecule = Some rmsd \<and>
         written res = [(''rmsd.txt'', rmsd_lines X rmsd)]"
    using run_looks_up_upper[of X args' res s fs] by blast
qed

theorem residue_upper_cased_before_lookup_witness:
  "list_all (\<lambda>c. c < 128) (str_of ''ala'') \<and>
   differ_only_in_case (str_of ''ala'') (str_of ''ALA'') \<and>
   upper (upper_table demo) (str_of ''ala'') = str_of ''ALA'' \<and>
   upper (upper_table demo) (str_of ''ALA'') = str_of ''ALA'' \<and>
   rmsd_molecule demo (''crd'', [''input/ala.crd'']) (str_of ''ala'') = Some (str_of ''ALA'') \<and>
   rmsd_molecule demo (''crd'', [''input/ala.crd'']) (str_of ''ALA'') = Some (str_of ''ALA'') \<and>
   equilibration demo (demo_args(''residue'' \<mapsto> StringV (str_of ''ala''))) =
   equilibration demo (demo_args(''residue'' \<mapsto> StringV (str_of ''ALA''))) \<and>
   demo_args ''residue'' = Some (StringV (str_of ''ala'')) \<and>
   demo_args ''files'' = Some (FilesV [''input/ala.crd'', ''input/ala.top'']) \<and>
   (\<exists>res system traj rmsd.
      equilibration demo demo_args = Inr res \<and>
      readMolecules demo [''input/ala.crd'', ''input/ala.top''] = Some system \<and>
      getMolWithResName demo system (str_of ''ALA'') = Some (str_of ''ALA'') \<and>
      RMSD demo traj 0 (str_of ''ALA'') = Some rmsd \<and>
      written res = [(''rmsd.txt'', rmsd_lines demo rmsd)])"
proof -
  let ?s = "str_of ''ala''" and ?t = "str_of ''ALA''"
  let ?sys = "(''crd'', [''input/ala.crd''])"
  let ?fs = "[''input/ala.crd'', ''input/ala.top'']"
  have ascii: "\<forall>c\<in>set ?s. c < 128" "list_all (\<lambda>c. c < 128) ?s"
    by (simp_all add: str_of_def)
  have d: "differ_only_in_case ?s ?t"
    by (simp add: str_of_def differ_only_in_case_def case_variant_def is_ascii_upper_def)
  have ut: "upper (upper_table demo) ?t = ?t"
    by (simp add: str_of_def upper_def upper_cp_def)
  have look: "getMolWithResName demo sys ?t = Some ?t" for sys
    by (simp add: demo_def)
  have residue: "demo_args ''residue'' = Some (StringV ?s)"
    and files: "demo_args ''files'' = Some (FilesV ?fs)"
    by (simp_all add: demo_args_def)
  obtain res where ok: "equilibration demo demo_args = Inr res"
    by (simp add: run_demo)
  note inst = residue_upper_cased_before_lookup[where X = demo and s = ?s and t = ?t
      and system = ?sys and args = demo_args and args' = demo_args and res = res and fs = ?fs]
  from inst have c1: "rmsd_molecule demo ?sys ?s =
      getMolWithResName demo ?sys (upper (upper_table demo) ?s)"
    by blast
  from inst d have c3: "upper (upper_table demo) ?s = upper (upper_table demo) ?t"
    "rmsd_molecule demo ?sys ?s = rmsd_molecule demo ?sys ?t"
    and eq: "equilibration demo (demo_args(''residue'' \<mapsto> StringV ?s)) =
             equilibration demo (demo_args(''residue'' \<mapsto> StringV ?t))"
    by blast+
  from c3(1) ut have us: "upper (upper_table demo) ?s = ?t" by simp
  from c1 have m1: "rmsd_molecule demo ?sys ?s = Some ?t"
    unfolding us by (simp only: look)
  from c3(2) m1 have m2: "rmsd_molecule demo ?sys ?t = Some ?t" by simp
  from inst ok residue files obtain system traj molecule rmsd
    where run: "readMolecules demo ?fs = Some system"
      "getMolWithResName demo system (upper (upper_table demo) ?s) = Some molecule"
      "RMSD demo traj 0 molecule = Some rmsd"
      "written res = [(''rmsd.txt'', rmsd_lines demo rmsd)]"
    by blast
  from run(2) have "molecule = ?t" unfolding us by (simp add: look)
  with run have "\<exists>res system traj rmsd.
      equilibration demo demo_args = Inr res \<and>
      readMolecules demo ?fs = Some system \<and>
      getMolWithResName demo system ?t = Some ?t \<and>
      RMSD demo traj 0 ?t = Some rmsd \<and>
      written res = [(''rmsd.txt'', rmsd_lines demo rmsd)]"
    using ok look by blast
  with ascii(2) d us ut m1 m2 eq residue files show ?thesis by blast
qed

section \<open>Outside the model\<close>

text \<open>
  The repository has no code for the rest of what its notebooks describe. The reserved
  command-line flags, the forms in which a file set can be written on the command line and
  the two ways of running a node are handled inside \<^verbatim>\<open>BSS.Gateway.Node\<close>; the protocol
  object, the process with its polling accessors and the trajectory reader are classes of
  the package. The script only calls them, so nothing about their behaviour can be derived
  from it.
\<close>

end
